theory Spec2Isabelle
  imports Main "HOL-Library.Word"
begin

section \<open>The decoded feed\<close>

text \<open>
  The GTFS-Realtime message tree as the protobuf runtime hands it to
  \<^verbatim>\<open>gtfs_parser.py\<close> and \<^verbatim>\<open>webapp/app.py\<close>. A proto2 \<^verbatim>\<open>optional\<close>
  field is an \<open>option\<close>: \<^verbatim>\<open>HasField\<close> is \<open>\<noteq> None\<close>, and reading an unset
  scalar yields the type's default (\<open>0\<close>, the empty string), reading an unset
  sub-message yields an empty message. \<^verbatim>\<open>required\<close> fields are plain, \<^verbatim>\<open>repeated\<close>
  fields are lists. Python's integers are unbounded, so they are \<open>int\<close>. A float is
  only ever copied into a column, so it is kept as the 32 bits of the wire value.
  Enum fields hold their wire number.
\<close>

type_synonym float32 = "32 word"

record TripDescriptor =
  trip_id :: "string option"
  route_id :: "string option"
  schedule_relationship :: "int option"

record StopTimeEvent =
  time :: "int option"

record StopTimeUpdate =
  stu_stop_id :: "string option"
  arrival :: "StopTimeEvent option"
  departure :: "StopTimeEvent option"

record TripUpdate =
  tu_trip :: TripDescriptor
  stop_time_update :: "StopTimeUpdate list"
  tu_timestamp :: "int option"

record VehicleDescriptor =
  vd_id :: "string option"
  label :: "string option"

record Position =
  latitude :: float32
  longitude :: float32
  bearing :: "float32 option"
  speed :: "float32 option"

record VehiclePosition =
  vp_trip :: "TripDescriptor option"
  vp_vehicle :: "VehicleDescriptor option"
  position :: "Position option"
  vp_stop_id :: "string option"
  current_status :: "int option"
  vp_timestamp :: "int option"

record TimeRange =
  tr_start :: "int option"
  tr_end :: "int option"

record EntitySelector =
  es_agency_id :: "string option"
  es_route_id :: "string option"
  es_stop_id :: "string option"

record Translation =
  text_t :: string
  language :: "string option"

record Alert =
  active_period :: "TimeRange list"
  informed_entity :: "EntitySelector list"
  cause :: "int option"
  effect :: "int option"
  header_text :: "Translation list option"
  description_text :: "Translation list option"

record FeedEntity =
  entity_id :: string
  trip_update :: "TripUpdate option"
  vehicle :: "VehiclePosition option"
  alert :: "Alert option"

record FeedHeader =
  gtfs_realtime_version :: string
  incrementality :: "int option"
  header_timestamp :: "int option"

record FeedMessage =
  header :: FeedHeader
  entity :: "FeedEntity list"

text \<open>
  The enum name tables live in \<^verbatim>\<open>gtfs_realtime_pb2\<close>, outside the repository; the
  extractors take them as a parameter. Only the defaults of \<^verbatim>\<open>cause\<close> and \<^verbatim>\<open>effect\<close>
  (\<^verbatim>\<open>UNKNOWN_CAUSE = 1\<close>, \<^verbatim>\<open>UNKNOWN_EFFECT = 8\<close>) are fixed by the schema.
\<close>

record enum_names =
  ScheduleRelationship_Name :: "int \<Rightarrow> string"
  VehicleStopStatus_Name :: "int \<Rightarrow> string"
  Cause_Name :: "int \<Rightarrow> string"
  Effect_Name :: "int \<Rightarrow> string"

definition get_int :: "int option \<Rightarrow> int" where
  "get_int f = (case f of None \<Rightarrow> 0 | Some v \<Rightarrow> v)"

definition get_str :: "string option \<Rightarrow> string" where
  "get_str f = (case f of None \<Rightarrow> '''' | Some v \<Rightarrow> v)"

definition get_translation :: "Translation list option \<Rightarrow> Translation list" where
  "get_translation f = (case f of None \<Rightarrow> [] | Some ts \<Rightarrow> ts)"

definition get_cause :: "int option \<Rightarrow> int" where
  "get_cause f = (case f of None \<Rightarrow> 1 | Some v \<Rightarrow> v)"

definition get_effect :: "int option \<Rightarrow> int" where
  "get_effect f = (case f of None \<Rightarrow> 8 | Some v \<Rightarrow> v)"

section \<open>Python values and strings\<close>

text \<open>
  A column holds a Python \<^verbatim>\<open>str\<close>, \<^verbatim>\<open>int\<close> or \<^verbatim>\<open>float\<close>. A row is the dict an
  extractor returns, kept as an association list in insertion order; \<open>map_of\<close>
  reads it as the mapping from column label to value.
\<close>

datatype cell = StrV string | IntV int | FltV float32

type_synonym row = "(string \<times> cell) list"

definition digit_char :: "nat \<Rightarrow> char" where
  "digit_char d =
     (if d = 0 then CHR ''0'' else if d = 1 then CHR ''1'' else if d = 2 then CHR ''2''
      else if d = 3 then CHR ''3'' else if d = 4 then CHR ''4'' else if d = 5 then CHR ''5''
      else if d = 6 then CHR ''6'' else if d = 7 then CHR ''7'' else if d = 8 then CHR ''8''
      else CHR ''9'')"

function str_nat :: "nat \<Rightarrow> string" where
  "str_nat n = (if n < 10 then [digit_char n] else str_nat (n div 10) @ [digit_char (n mod 10)])"
  by pat_completeness auto
termination
  by (relation "measure (\<lambda>n. n)") auto

declare str_nat.simps [simp del]

text \<open>\<^verbatim>\<open>str(i)\<close>, which is also how an f-string renders an integer.\<close>

definition str_int :: "int \<Rightarrow> string" where
  "str_int i = (if i < 0 then CHR ''-'' # str_nat (nat (- i)) else str_nat (nat i))"

text \<open>\<^verbatim>\<open>sep.join(xs)\<close>.\<close>

fun join :: "string \<Rightarrow> string list \<Rightarrow> string" where
  "join sep [] = ''''"
| "join sep [x] = x"
| "join sep (x # y # ys) = x @ sep @ join sep (y # ys)"

section \<open>The extractors of gtfs_parser.py\<close>

text \<open>
  One stop-time update of \<^verbatim>\<open>process_trip_update\<close>: each of the three parts is the
  field's value when \<^verbatim>\<open>HasField\<close> holds and \<^verbatim>\<open>""\<close> otherwise, and the f-string
  \<^verbatim>\<open>f"{stop_id}:{arrival_time}-{departure_time}"\<close> renders them.
\<close>

definition event_time :: "StopTimeEvent option \<Rightarrow> string" where
  "event_time ev =
     (case ev of None \<Rightarrow> ''''
      | Some a \<Rightarrow> (case time a of None \<Rightarrow> '''' | Some t \<Rightarrow> str_int t))"

definition render_stop_update :: "StopTimeUpdate \<Rightarrow> string" where
  "render_stop_update stop_update =
     (let stop_id = (case stu_stop_id stop_update of Some s \<Rightarrow> s | None \<Rightarrow> '''');
          arrival_time = event_time (arrival stop_update);
          departure_time = event_time (departure stop_update)
      in stop_id @ '':'' @ arrival_time @ ''-'' @ departure_time)"

definition opt_str :: "string option \<Rightarrow> cell" where
  "opt_str f = (case f of Some s \<Rightarrow> StrV s | None \<Rightarrow> StrV '''')"

definition opt_int :: "int option \<Rightarrow> cell" where
  "opt_int f = (case f of Some i \<Rightarrow> IntV i | None \<Rightarrow> StrV '''')"

definition opt_flt :: "float32 option \<Rightarrow> cell" where
  "opt_flt f = (case f of Some x \<Rightarrow> FltV x | None \<Rightarrow> StrV '''')"

definition process_trip_update :: "enum_names \<Rightarrow> FeedEntity \<Rightarrow> TripUpdate \<Rightarrow> row" where
  "process_trip_update N e tu =
     (let tid = opt_str (trip_id (tu_trip tu));
          rid = opt_str (route_id (tu_trip tu));
          sr = (case schedule_relationship (tu_trip tu) of
                  Some v \<Rightarrow> ScheduleRelationship_Name N v
                | None \<Rightarrow> ''SCHEDULED'');
          stop_updates = map render_stop_update (stop_time_update tu)
      in [(''Entity ID'', StrV (entity_id e)),
          (''Type'', StrV ''trip_update''),
          (''Trip ID'', tid),
          (''Route ID'', rid),
          (''Schedule Relationship'', StrV sr),
          (''Stop Updates'', StrV (join ''; '' stop_updates)),
          (''Timestamp'', opt_int (tu_timestamp tu))])"

text \<open>
  \<^verbatim>\<open>x.f if v.HasField("x") and v.x.HasField("f") else ""\<close>: the two-level
  presence test of \<^verbatim>\<open>process_vehicle_position\<close>.
\<close>

definition sub_str :: "'a option \<Rightarrow> ('a \<Rightarrow> string option) \<Rightarrow> cell" where
  "sub_str parent f = (case parent of None \<Rightarrow> StrV '''' | Some p \<Rightarrow> opt_str (f p))"

definition sub_flt :: "'a option \<Rightarrow> ('a \<Rightarrow> float32 option) \<Rightarrow> cell" where
  "sub_flt parent f = (case parent of None \<Rightarrow> StrV '''' | Some p \<Rightarrow> opt_flt (f p))"

definition process_vehicle_position :: "enum_names \<Rightarrow> FeedEntity \<Rightarrow> VehiclePosition \<Rightarrow> row" where
  "process_vehicle_position N e v =
     (let lat = (case position v of Some p \<Rightarrow> FltV (latitude p) | None \<Rightarrow> StrV '''');
          lon = (case position v of Some p \<Rightarrow> FltV (longitude p) | None \<Rightarrow> StrV '''');
          current_stat = (case current_status v of
                            Some s \<Rightarrow> VehicleStopStatus_Name N s | None \<Rightarrow> '''')
      in [(''Entity ID'', StrV (entity_id e)),
          (''Type'', StrV ''vehicle_position''),
          (''Trip ID'', sub_str (vp_trip v) trip_id),
          (''Route ID'', sub_str (vp_trip v) route_id),
          (''Vehicle ID'', sub_str (vp_vehicle v) vd_id),
          (''Vehicle Label'', sub_str (vp_vehicle v) label),
          (''Latitude'', lat),
          (''Longitude'', lon),
          (''Bearing'', sub_flt (position v) bearing),
          (''Speed'', sub_flt (position v) speed),
          (''Current Stop'', opt_str (vp_stop_id v)),
          (''Current Status'', StrV current_stat),
          (''Timestamp'', opt_int (vp_timestamp v))])"

text \<open>
  \<^verbatim>\<open>f"{ap.start}-{ap.end}"\<close> reads both bounds without a presence test, so an
  unset bound is read as the protobuf default.
\<close>

definition render_active_period :: "TimeRange \<Rightarrow> string" where
  "render_active_period ap = str_int (get_int (tr_start ap)) @ ''-'' @ str_int (get_int (tr_end ap))"

definition active_periods :: "TimeRange list \<Rightarrow> string" where
  "active_periods aps = (if aps \<noteq> [] then join ''; '' (map render_active_period aps) else '''')"

definition informed_parts :: "EntitySelector \<Rightarrow> string list" where
  "informed_parts ie =
     (case es_route_id ie of Some r \<Rightarrow> [''route_id='' @ r] | None \<Rightarrow> []) @
     (case es_stop_id ie of Some s \<Rightarrow> [''stop_id='' @ s] | None \<Rightarrow> []) @
     (case es_agency_id ie of Some a \<Rightarrow> [''agency_id='' @ a] | None \<Rightarrow> [])"

definition informed_entities :: "EntitySelector list \<Rightarrow> string" where
  "informed_entities ies = join ''; '' (map (\<lambda>ie. join '' | '' (informed_parts ie)) ies)"

text \<open>
  The translation loop of \<^verbatim>\<open>process_alert\<close>, written twice in the source (header
  and description): \<open>scan_he\<close> is the \<^verbatim>\<open>for\<close> with its \<^verbatim>\<open>break\<close>, starting from
  \<^verbatim>\<open>""\<close>; \<open>select_text\<close> adds the fallback \<^verbatim>\<open>if not text and translation\<close>.
\<close>

fun scan_he :: "Translation list \<Rightarrow> string" where
  "scan_he [] = ''''"
| "scan_he (t # rest) =
     (if get_str (language t) = ''he'' \<and> text_t t \<noteq> '''' then text_t t
      else scan_he rest)"

definition select_text :: "Translation list \<Rightarrow> string" where
  "select_text translation =
     (let found = scan_he translation
      in if found = '''' \<and> translation \<noteq> []
         then (case translation of t # _ \<Rightarrow> text_t t | [] \<Rightarrow> found)
         else found)"

definition process_alert :: "enum_names \<Rightarrow> FeedEntity \<Rightarrow> Alert \<Rightarrow> row" where
  "process_alert N e a =
     [(''Entity ID'', StrV (entity_id e)),
      (''Type'', StrV ''alert''),
      (''Active Periods'', StrV (active_periods (active_period a))),
      (''Informed Entities'', StrV (informed_entities (informed_entity a))),
      (''Cause'', StrV (Cause_Name N (get_cause (cause a)))),
      (''Effect'', StrV (Effect_Name N (get_effect (effect a)))),
      (''Header Text'', StrV (select_text (get_translation (header_text a)))),
      (''Description Text'', StrV (select_text (get_translation (description_text a))))]"

section \<open>The extractors of webapp/app.py\<close>

text \<open>The web copies build the same values and return the dict without \<^verbatim>\<open>"Type"\<close>.\<close>

definition web_process_trip_update :: "enum_names \<Rightarrow> FeedEntity \<Rightarrow> TripUpdate \<Rightarrow> row" where
  "web_process_trip_update N e tu =
     (let tid = opt_str (trip_id (tu_trip tu));
          rid = opt_str (route_id (tu_trip tu));
          sr = (case schedule_relationship (tu_trip tu) of
                  Some v \<Rightarrow> ScheduleRelationship_Name N v
                | None \<Rightarrow> ''SCHEDULED'');
          stop_updates = map render_stop_update (stop_time_update tu)
      in [(''Entity ID'', StrV (entity_id e)),
          (''Trip ID'', tid),
          (''Route ID'', rid),
          (''Schedule Relationship'', StrV sr),
          (''Stop Updates'', StrV (join ''; '' stop_updates)),
          (''Timestamp'', opt_int (tu_timestamp tu))])"

definition web_process_vehicle_position :: "enum_names \<Rightarrow> FeedEntity \<Rightarrow> VehiclePosition \<Rightarrow> row" where
  "web_process_vehicle_position N e v =
     (let lat = (case position v of Some p \<Rightarrow> FltV (latitude p) | None \<Rightarrow> StrV '''');
          lon = (case position v of Some p \<Rightarrow> FltV (longitude p) | None \<Rightarrow> StrV '''');
          current_stat = (case current_status v of
                            Some s \<Rightarrow> VehicleStopStatus_Name N s | None \<Rightarrow> '''')
      in [(''Entity ID'', StrV (entity_id e)),
          (''Trip ID'', sub_str (vp_trip v) trip_id),
          (''Route ID'', sub_str (vp_trip v) route_id),
          (''Vehicle ID'', sub_str (vp_vehicle v) vd_id),
          (''Vehicle Label'', sub_str (vp_vehicle v) label),
          (''Latitude'', lat),
          (''Longitude'', lon),
          (''Bearing'', sub_flt (position v) bearing),
          (''Speed'', sub_flt (position v) speed),
          (''Current Stop'', opt_str (vp_stop_id v)),
          (''Current Status'', StrV current_stat),
          (''Timestamp'', opt_int (vp_timestamp v))])"

definition web_process_alert :: "enum_names \<Rightarrow> FeedEntity \<Rightarrow> Alert \<Rightarrow> row" where
  "web_process_alert N e a =
     [(''Entity ID'', StrV (entity_id e)),
      (''Active Periods'', StrV (active_periods (active_period a))),
      (''Informed Entities'', StrV (informed_entities (informed_entity a))),
      (''Cause'', StrV (Cause_Name N (get_cause (cause a)))),
      (''Effect'', StrV (Effect_Name N (get_effect (effect a)))),
      (''Header Text'', StrV (select_text (get_translation (header_text a)))),
      (''Description Text'', StrV (select_text (get_translation (description_text a))))]"

section \<open>parse_gtfs_realtime\<close>

text \<open>
  The entity loop: the first of \<^verbatim>\<open>trip_update\<close>, \<^verbatim>\<open>vehicle\<close>, \<^verbatim>\<open>alert\<close> that is set
  decides the extractor; its dict is never empty, so it is always appended. An entity
  with none of them set falls through the \<^verbatim>\<open>if/elif\<close> chain.
\<close>

definition process_entity :: "enum_names \<Rightarrow> FeedEntity \<Rightarrow> row list" where
  "process_entity N e =
     (case trip_update e of Some tu \<Rightarrow> [process_trip_update N e tu]
      | None \<Rightarrow>
     (case vehicle e of Some v \<Rightarrow> [process_vehicle_position N e v]
      | None \<Rightarrow>
     (case alert e of Some a \<Rightarrow> [process_alert N e a]
      | None \<Rightarrow> [])))"

fun collect :: "enum_names \<Rightarrow> FeedEntity list \<Rightarrow> row list" where
  "collect N [] = []"
| "collect N (e # es) = process_entity N e @ collect N es"

text \<open>
  The file given on the command line: absent, not a FeedMessage, or decoded. The
  exceptions \<^verbatim>\<open>parse_gtfs_realtime\<close> lets escape are values of \<open>error\<close>;
  \<open>TimestampError\<close> stands for whatever \<^verbatim>\<open>datetime.fromtimestamp\<close> raises on a
  value it cannot convert.
\<close>

datatype pb_file = Missing | Undecodable | Decoded FeedMessage

datatype error = FileNotFoundError | DecodeError | AttributeError | TimestampError

text \<open>
  Reading an attribute of the header message by name. The fields of \<^verbatim>\<open>FeedHeader\<close>
  are \<^verbatim>\<open>gtfs_realtime_version\<close>, \<^verbatim>\<open>incrementality\<close> and \<^verbatim>\<open>timestamp\<close>; the
  message has no attribute of another field name, and reading one raises.
\<close>

definition FeedHeader_getattr :: "FeedHeader \<Rightarrow> string \<Rightarrow> error + cell" where
  "FeedHeader_getattr h name =
     (if name = ''gtfs_realtime_version'' then Inr (StrV (gtfs_realtime_version h))
      else if name = ''incrementality'' then Inr (IntV (get_int (incrementality h)))
      else if name = ''timestamp'' then Inr (IntV (get_int (header_timestamp h)))
      else Inl AttributeError)"

text \<open>
  \<^verbatim>\<open>pd.DataFrame(data)\<close> for a list of dicts: the columns are the keys in the order
  they are first seen, and every row has every column, with no value (\<open>None\<close>, the
  frame's NaN) where its dict has no such key. \<^verbatim>\<open>pd.DataFrame()\<close> has neither
  columns nor rows.
\<close>

record frame =
  columns :: "string list"
  records :: "cell option list list"

definition first_seen :: "string list \<Rightarrow> string list" where
  "first_seen ks = rev (remdups (rev ks))"

definition DataFrame :: "row list \<Rightarrow> frame" where
  "DataFrame data =
     (let cols = first_seen (concat (map (map fst) data))
      in \<lparr>columns = cols, records = map (\<lambda>d. map (map_of d) cols) data\<rparr>)"

definition empty_frame :: frame where
  "empty_frame = \<lparr>columns = [], records = []\<rparr>"

text \<open>
  What the function takes from outside the repository: \<^verbatim>\<open>df.sort_values(column)\<close> of
  pandas, called with its default sort kind, and whether
  \<^verbatim>\<open>datetime.fromtimestamp\<close> returns for a given header timestamp.
\<close>

record library =
  sort_values :: "string \<Rightarrow> frame \<Rightarrow> frame"
  fromtimestamp :: "int \<Rightarrow> bool"

text \<open>
  \<^verbatim>\<open>parse_gtfs_realtime\<close> from the existence test on. Before the loop it prints
  \<^verbatim>\<open>feed.header.version\<close> and, when the header has a timestamp, its conversion by
  \<^verbatim>\<open>datetime.fromtimestamp\<close>; either can raise, and then nothing after it runs.
  The writing of the CSV or JSON file after the sort is file output and is left out.
\<close>

definition parse_gtfs_realtime :: "library \<Rightarrow> enum_names \<Rightarrow> pb_file \<Rightarrow> error + frame" where
  "parse_gtfs_realtime L N f =
     (case f of
        Missing \<Rightarrow> Inl FileNotFoundError
      | Undecodable \<Rightarrow> Inl DecodeError
      | Decoded feed \<Rightarrow>
          (case FeedHeader_getattr (header feed) ''version'' of
             Inl err \<Rightarrow> Inl err
           | Inr ver \<Rightarrow>
               (case (case header_timestamp (header feed) of
                        Some t \<Rightarrow> (if fromtimestamp L t then Inr () else Inl TimestampError)
                      | None \<Rightarrow> Inr ()) of
                  Inl err \<Rightarrow> Inl err
                | Inr u \<Rightarrow>
                    (let data = collect N (entity feed)
                     in if data \<noteq> [] then
                          (let df = DataFrame data
                           in if ''Entity ID'' \<in> set (columns df)
                              then Inr (sort_values L ''Entity ID'' df)
                              else Inr df)
                        else Inr empty_frame))))"

section \<open>What the claims are stated with\<close>

text \<open>
  The translation selection in the specification's words: the text of the first entry
  with language tag \<^verbatim>\<open>"he"\<close> and non-empty text, else the text of the first entry,
  else the empty string.
\<close>

definition first_he_or_first :: "Translation list \<Rightarrow> string" where
  "first_he_or_first ts =
     (case find (\<lambda>t. get_str (language t) = ''he'' \<and> text_t t \<noteq> '''') ts of
        Some t \<Rightarrow> text_t t
      | None \<Rightarrow> (case ts of [] \<Rightarrow> '''' | t # _ \<Rightarrow> text_t t))"

text \<open>
  A name table for running the extractors on concrete feeds: the leading values of the
  four enums of the GTFS-Realtime schema. No theorem depends on its entries.
\<close>

definition example_names :: enum_names where
  "example_names =
     \<lparr>ScheduleRelationship_Name =
        (\<lambda>v. if v = 0 then ''SCHEDULED'' else if v = 1 then ''ADDED''
             else if v = 2 then ''UNSCHEDULED'' else ''CANCELED''),
      VehicleStopStatus_Name =
        (\<lambda>v. if v = 0 then ''INCOMING_AT'' else if v = 1 then ''STOPPED_AT''
             else ''IN_TRANSIT_TO''),
      Cause_Name = (\<lambda>v. if v = 1 then ''UNKNOWN_CAUSE'' else ''OTHER_CAUSE''),
      Effect_Name =
        (\<lambda>v. if v = 1 then ''NO_SERVICE'' else if v = 8 then ''UNKNOWN_EFFECT''
             else ''OTHER_EFFECT'')\<rparr>"

text \<open>A trip update for the given trip id with nothing else set, and an entity carrying it.\<close>

definition trip_only :: "string \<Rightarrow> TripUpdate" where
  "trip_only t =
     \<lparr>tu_trip = \<lparr>trip_id = Some t, route_id = None, schedule_relationship = None\<rparr>,
      stop_time_update = [], tu_timestamp = None\<rparr>"

definition trip_entity :: "string \<Rightarrow> string \<Rightarrow> FeedEntity" where
  "trip_entity i t =
     \<lparr>entity_id = i, trip_update = Some (trip_only t), vehicle = None, alert = None\<rparr>"

text \<open>An entity with no payload.\<close>

definition bare_entity :: "string \<Rightarrow> FeedEntity" where
  "bare_entity i = \<lparr>entity_id = i, trip_update = None, vehicle = None, alert = None\<rparr>"

text \<open>A decoded feed of schema version 2.0, without header timestamp, with the given entities.\<close>

definition feed_of :: "FeedEntity list \<Rightarrow> FeedMessage" where
  "feed_of es =
     \<lparr>header = \<lparr>gtfs_realtime_version = ''2.0'', incrementality = None,
                  header_timestamp = None\<rparr>,
      entity = es\<rparr>"

text \<open>
  The trip update of the specification's scenario: entity \<^verbatim>\<open>tu1\<close>, trip \<^verbatim>\<open>T1\<close>, one
  stop-time update (stop \<^verbatim>\<open>S1\<close>, arrival 100, no departure), no schedule relationship,
  no update timestamp.
\<close>

definition scenario_update :: TripUpdate where
  "scenario_update =
     \<lparr>tu_trip = \<lparr>trip_id = Some ''T1'', route_id = None, schedule_relationship = None\<rparr>,
      stop_time_update =
        [\<lparr>stu_stop_id = Some ''S1'', arrival = Some \<lparr>time = Some 100\<rparr>, departure = None\<rparr>],
      tu_timestamp = None\<rparr>"

definition scenario_entity :: FeedEntity where
  "scenario_entity =
     \<lparr>entity_id = ''tu1'', trip_update = Some scenario_update, vehicle = None, alert = None\<rparr>"

text \<open>The record the specification expects for the scenario, under the code's column labels.\<close>

definition scenario_record :: row where
  "scenario_record =
     [(''Entity ID'', StrV ''tu1''), (''Trip ID'', StrV ''T1''), (''Route ID'', StrV ''''),
      (''Schedule Relationship'', StrV ''SCHEDULED''), (''Stop Updates'', StrV ''S1:100-''),
      (''Timestamp'', StrV '''')]"

text \<open>An alert with nothing set but the given active periods and informed entities.\<close>

definition alert_with :: "TimeRange list \<Rightarrow> EntitySelector list \<Rightarrow> Alert" where
  "alert_with aps ies =
     \<lparr>active_period = aps, informed_entity = ies, cause = None, effect = None,
      header_text = None, description_text = None\<rparr>"

section \<open>Helper lemmas\<close>

lemma scan_he_find:
  "scan_he ts = (case find (\<lambda>t. get_str (language t) = ''he'' \<and> text_t t \<noteq> '''') ts of
                   Some t \<Rightarrow> text_t t | None \<Rightarrow> '''')"
  by (induction ts) auto

lemma find_he_nonempty:
  "find (\<lambda>t. get_str (language t) = ''he'' \<and> text_t t \<noteq> '''') ts = Some t \<Longrightarrow> text_t t \<noteq> ''''"
  by (induction ts) (auto split: if_splits)

lemma select_text_spec: "select_text ts = first_he_or_first ts"
  by (cases ts)
     (auto simp: select_text_def first_he_or_first_def scan_he_find Let_def
           split: option.splits dest: find_he_nonempty)

lemma join_cons: "ys \<noteq> [] \<Longrightarrow> join sep (x # ys) = x @ sep @ join sep ys"
  by (cases ys) auto

lemma join_append:
  "xs \<noteq> [] \<Longrightarrow> ys \<noteq> [] \<Longrightarrow> join sep (xs @ ys) = join sep xs @ sep @ join sep ys"
  by (induction sep xs rule: join.induct) (auto simp: join_cons)

lemma str_int_0: "str_int 0 = ''0''"
  by (simp add: str_int_def str_nat.simps digit_char_def)

lemma str_int_100: "str_int 100 = ''100''"
  by (simp add: str_int_def str_nat.simps digit_char_def)

lemma str_int_200: "str_int 200 = ''200''"
  by (simp add: str_int_def str_nat.simps digit_char_def)

lemma collect_append: "collect N (xs @ ys) = collect N xs @ collect N ys"
  by (induction xs) auto

lemma process_entity_bare:
  "trip_update e = None \<Longrightarrow> vehicle e = None \<Longrightarrow> alert e = None \<Longrightarrow> process_entity N e = []"
  by (simp add: process_entity_def)

lemma header_has_no_version: "FeedHeader_getattr h ''version'' = Inl AttributeError"
  by (simp add: FeedHeader_getattr_def)

lemma decoded_feed_raises: "parse_gtfs_realtime L N (Decoded feed) = Inl AttributeError"
  by (simp add: parse_gtfs_realtime_def header_has_no_version)

section \<open>Translation selection\<close>

text \<open>
  C1. For each of the Header Text and Description Text columns independently, and in
  both copies of the alert extractor, the column is the text of the first translation
  whose language tag is \<^verbatim>\<open>"he"\<close> and whose text is non-empty; failing that, the text
  of the first translation of the list; failing that, the empty string.
\<close>

theorem alert_text_selection:
  "map_of (process_alert N e a) ''Header Text''
     = Some (StrV (first_he_or_first (get_translation (header_text a))))
   \<and> map_of (process_alert N e a) ''Description Text''
     = Some (StrV (first_he_or_first (get_translation (description_text a))))
   \<and> map_of (web_process_alert N e a) ''Header Text''
     = Some (StrV (first_he_or_first (get_translation (header_text a))))
   \<and> map_of (web_process_alert N e a) ''Description Text''
     = Some (StrV (first_he_or_first (get_translation (description_text a))))"
  by (simp add: process_alert_def web_process_alert_def select_text_spec)

theorem alert_text_selection_witness:
  "map_of (process_alert example_names (bare_entity ''a1'')
      ((alert_with [] [])
         \<lparr>header_text := Some [\<lparr>text_t = ''Hi'', language = Some ''en''\<rparr>,
                                \<lparr>text_t = '''', language = Some ''he''\<rparr>,
                                \<lparr>text_t = ''Shalom'', language = Some ''he''\<rparr>],
          description_text := Some [\<lparr>text_t = ''Hi'', language = Some ''en''\<rparr>,
                                     \<lparr>text_t = '''', language = Some ''he''\<rparr>]\<rparr>))
      ''Header Text'' = Some (StrV ''Shalom'')
   \<and> map_of (process_alert example_names (bare_entity ''a1'')
      ((alert_with [] [])
         \<lparr>header_text := Some [\<lparr>text_t = ''Hi'', language = Some ''en''\<rparr>,
                                \<lparr>text_t = '''', language = Some ''he''\<rparr>,
                                \<lparr>text_t = ''Shalom'', language = Some ''he''\<rparr>],
          description_text := Some [\<lparr>text_t = ''Hi'', language = Some ''en''\<rparr>,
                                     \<lparr>text_t = '''', language = Some ''he''\<rparr>]\<rparr>))
      ''Description Text'' = Some (StrV ''Hi'')"
  using alert_text_selection [of example_names "bare_entity ''a1''"
      "(alert_with [] [])
         \<lparr>header_text := Some [\<lparr>text_t = ''Hi'', language = Some ''en''\<rparr>,
                                \<lparr>text_t = '''', language = Some ''he''\<rparr>,
                                \<lparr>text_t = ''Shalom'', language = Some ''he''\<rparr>],
          description_text := Some [\<lparr>text_t = ''Hi'', language = Some ''en''\<rparr>,
                                     \<lparr>text_t = '''', language = Some ''he''\<rparr>]\<rparr>"]
  by (simp add: first_he_or_first_def get_translation_def get_str_def alert_with_def)

section \<open>Active periods\<close>

text \<open>
  C2. The Active Periods column renders a period whose start is not set: the start is
  read without a presence test, so it comes out as \<^verbatim>\<open>0\<close> and the column is
  \<^verbatim>\<open>0-200\<close>, where the claim has \<^verbatim>\<open>-200\<close>. The stop-time updates of the trip
  extractor test the presence of each bound and render an absent one as the empty string.
\<close>

theorem active_period_unset_start:
  "map_of (process_alert example_names (bare_entity ''a1'')
      (alert_with [\<lparr>tr_start = None, tr_end = Some 200\<rparr>] [])) ''Active Periods''
     = Some (StrV ''0-200'')
   \<and> render_stop_update \<lparr>stu_stop_id = Some ''S1'', arrival = None,
        departure = Some \<lparr>time = Some 200\<rparr>\<rparr> = ''S1:-200''"
  by (simp add: process_alert_def alert_with_def active_periods_def render_active_period_def
        get_int_def str_int_0 str_int_200 render_stop_update_def event_time_def)

section \<open>Order of the output\<close>

text \<open>
  C3. The assembled output should hold one record per classified entity, sorted by
  Entity ID. The function never gets there: before the loop it reads
  \<^verbatim>\<open>feed.header.version\<close>, the header message has no such attribute (its field is
  \<^verbatim>\<open>gtfs_realtime_version\<close>), and the call ends in \<^verbatim>\<open>AttributeError\<close>. On the feed
  with the trip updates \<^verbatim>\<open>b\<close> and \<^verbatim>\<open>B\<close> the loop alone would collect both records,
  in feed order, but no table is returned, whatever the library does.
\<close>

theorem sorted_output_not_returned:
  "parse_gtfs_realtime L N (Decoded (feed_of [trip_entity ''b'' ''T1'', trip_entity ''B'' ''T2'']))
     = Inl AttributeError
   \<and> collect N (entity (feed_of [trip_entity ''b'' ''T1'', trip_entity ''B'' ''T2'']))
     = [process_trip_update N (trip_entity ''b'' ''T1'') (trip_only ''T1''),
        process_trip_update N (trip_entity ''B'' ''T2'') (trip_only ''T2'')]"
proof -
  have "collect N (entity (feed_of [trip_entity ''b'' ''T1'', trip_entity ''B'' ''T2'']))
        = [process_trip_update N (trip_entity ''b'' ''T1'') (trip_only ''T1''),
           process_trip_update N (trip_entity ''B'' ''T2'') (trip_only ''T2'')]"
    by (simp add: feed_of_def process_entity_def trip_entity_def)
  then show ?thesis
    by (simp add: decoded_feed_raises)
qed

section \<open>Schedule relationship\<close>

text \<open>
  C4. The Schedule Relationship column of a trip update is the resolved enum name when
  the field is set, and the literal \<^verbatim>\<open>SCHEDULED\<close> (not the empty string) when it is
  not; in both copies of the extractor.
\<close>

theorem schedule_relationship_column:
  "(\<forall>v. schedule_relationship (tu_trip tu) = Some v \<longrightarrow>
        map_of (process_trip_update N e tu) ''Schedule Relationship''
          = Some (StrV (ScheduleRelationship_Name N v))
      \<and> map_of (web_process_trip_update N e tu) ''Schedule Relationship''
          = Some (StrV (ScheduleRelationship_Name N v)))
   \<and> (schedule_relationship (tu_trip tu) = None \<longrightarrow>
        map_of (process_trip_update N e tu) ''Schedule Relationship'' = Some (StrV ''SCHEDULED'')
      \<and> map_of (web_process_trip_update N e tu) ''Schedule Relationship''
          = Some (StrV ''SCHEDULED'')
      \<and> map_of (process_trip_update N e tu) ''Schedule Relationship'' \<noteq> Some (StrV ''''))"
  by (simp add: process_trip_update_def web_process_trip_update_def Let_def)

theorem schedule_relationship_column_witness:
  "map_of (process_trip_update example_names scenario_entity scenario_update)
      ''Schedule Relationship'' = Some (StrV ''SCHEDULED'')
   \<and> map_of (process_trip_update example_names scenario_entity
        (scenario_update\<lparr>tu_trip := \<lparr>trip_id = None, route_id = None,
                                        schedule_relationship = Some 3\<rparr>\<rparr>))
      ''Schedule Relationship'' = Some (StrV ''CANCELED'')"
  using schedule_relationship_column [of scenario_update example_names scenario_entity]
    schedule_relationship_column
      [of "scenario_update\<lparr>tu_trip := \<lparr>trip_id = None, route_id = None,
                                          schedule_relationship = Some 3\<rparr>\<rparr>"
          example_names scenario_entity]
  by (simp add: scenario_update_def example_names_def)

section \<open>The scenario\<close>

text \<open>
  C5, as stated: the scenario's trip update yields a record with exactly the six
  columns of the specification. This fails on the extractor of \<^verbatim>\<open>gtfs_parser.py\<close>:
  its record has a seventh column, \<^verbatim>\<open>Type\<close>, so it is not the expected record.
\<close>

theorem scenario_six_columns_counterexample:
  "map_of (process_trip_update example_names scenario_entity scenario_update)
     \<noteq> map_of scenario_record"
proof
  assume "map_of (process_trip_update example_names scenario_entity scenario_update)
            = map_of scenario_record"
  then have "map_of (process_trip_update example_names scenario_entity scenario_update) ''Type''
            = map_of scenario_record ''Type''"
    by simp
  then show False
    by (simp add: process_trip_update_def scenario_record_def Let_def)
qed

text \<open>
  C5, amended: for the scenario's trip-update entity, \<^verbatim>\<open>process_trip_update\<close> of
  \<^verbatim>\<open>gtfs_parser.py\<close> returns one record with the six columns and values of the
  specification (Timestamp empty: the extractor reads the update's timestamp, never the
  header's) and a seventh column \<^verbatim>\<open>Type\<close> holding \<^verbatim>\<open>trip_update\<close>; the copy in
  \<^verbatim>\<open>webapp/app.py\<close> returns exactly the six.
\<close>

theorem scenario_record_with_type:
  "process_trip_update N scenario_entity scenario_update
     = [(''Entity ID'', StrV ''tu1''), (''Type'', StrV ''trip_update''),
        (''Trip ID'', StrV ''T1''), (''Route ID'', StrV ''''),
        (''Schedule Relationship'', StrV ''SCHEDULED''),
        (''Stop Updates'', StrV ''S1:100-''), (''Timestamp'', StrV '''')]
   \<and> web_process_trip_update N scenario_entity scenario_update = scenario_record"
proof -
  have r: "render_stop_update
             \<lparr>stu_stop_id = Some ''S1'', arrival = Some \<lparr>time = Some 100\<rparr>, departure = None\<rparr>
           = ''S1:100-''"
    by (simp add: render_stop_update_def event_time_def str_int_100)
  have c: "process_trip_update N scenario_entity scenario_update
           = [(''Entity ID'', StrV ''tu1''), (''Type'', StrV ''trip_update''),
              (''Trip ID'', StrV ''T1''), (''Route ID'', StrV ''''),
              (''Schedule Relationship'', StrV ''SCHEDULED''),
              (''Stop Updates'', StrV ''S1:100-''), (''Timestamp'', StrV '''')]"
    by (simp add: process_trip_update_def scenario_update_def scenario_entity_def r
          opt_str_def opt_int_def)
  have w: "web_process_trip_update N scenario_entity scenario_update = scenario_record"
    by (simp add: web_process_trip_update_def scenario_update_def scenario_entity_def r
          opt_str_def opt_int_def scenario_record_def)
  from c w show ?thesis
    by simp
qed

section \<open>Position columns\<close>

text \<open>
  C6. For a vehicle position, Latitude and Longitude both hold the position's values
  whenever a position block is set, and are the empty string exactly when there is
  none; Bearing and Speed are each the empty string when their own field is not set,
  also under a position block.
\<close>

theorem position_columns:
  "(\<forall>p. position v = Some p \<longrightarrow>
        map_of (process_vehicle_position N e v) ''Latitude'' = Some (FltV (latitude p))
      \<and> map_of (process_vehicle_position N e v) ''Longitude'' = Some (FltV (longitude p))
      \<and> (bearing p = None \<longrightarrow>
           map_of (process_vehicle_position N e v) ''Bearing'' = Some (StrV ''''))
      \<and> (speed p = None \<longrightarrow>
           map_of (process_vehicle_position N e v) ''Speed'' = Some (StrV '''')))
   \<and> (position v = None \<longrightarrow>
        map_of (process_vehicle_position N e v) ''Bearing'' = Some (StrV '''')
      \<and> map_of (process_vehicle_position N e v) ''Speed'' = Some (StrV ''''))
   \<and> (map_of (process_vehicle_position N e v) ''Latitude'' = Some (StrV '''')
        \<longleftrightarrow> position v = None)
   \<and> (map_of (process_vehicle_position N e v) ''Longitude'' = Some (StrV '''')
        \<longleftrightarrow> position v = None)"
  by (auto simp: process_vehicle_position_def Let_def sub_flt_def opt_flt_def
        split: option.splits)

theorem position_columns_witness:
  "map_of (process_vehicle_position example_names (bare_entity ''v1'')
      \<lparr>vp_trip = None, vp_vehicle = None,
       position = Some \<lparr>latitude = 7, longitude = 9, bearing = None, speed = Some 3\<rparr>,
       vp_stop_id = None, current_status = None, vp_timestamp = None\<rparr>) ''Latitude''
     = Some (FltV 7)
   \<and> map_of (process_vehicle_position example_names (bare_entity ''v1'')
      \<lparr>vp_trip = None, vp_vehicle = None,
       position = Some \<lparr>latitude = 7, longitude = 9, bearing = None, speed = Some 3\<rparr>,
       vp_stop_id = None, current_status = None, vp_timestamp = None\<rparr>) ''Bearing''
     = Some (StrV '''')
   \<and> map_of (process_vehicle_position example_names (bare_entity ''v1'')
      \<lparr>vp_trip = None, vp_vehicle = None, position = None,
       vp_stop_id = None, current_status = None, vp_timestamp = None\<rparr>) ''Latitude''
     = Some (StrV '''')"
  using position_columns [of
      "\<lparr>vp_trip = None, vp_vehicle = None,
        position = Some \<lparr>latitude = 7, longitude = 9, bearing = None, speed = Some 3\<rparr>,
        vp_stop_id = None, current_status = None, vp_timestamp = None\<rparr>"
      example_names "bare_entity ''v1''"]
    position_columns [of
      "\<lparr>vp_trip = None, vp_vehicle = None, position = None,
        vp_stop_id = None, current_status = None, vp_timestamp = None\<rparr>"
      example_names "bare_entity ''v1''"]
  by simp

section \<open>Entities without a payload\<close>

text \<open>
  C7. A feed holding an entity with no payload should be processed without error, with
  no record for that entity and with the other entities processed. On the feed
  \<^verbatim>\<open>[b, x, a]\<close>, where \<^verbatim>\<open>x\<close> has no payload, the call ends in
  \<^verbatim>\<open>AttributeError\<close> at \<^verbatim>\<open>feed.header.version\<close>, before the loop. The loop
  itself does skip \<^verbatim>\<open>x\<close>: it collects what it collects without it.
\<close>

theorem unrecognized_entity_feed_raises:
  "parse_gtfs_realtime L N
      (Decoded (feed_of [trip_entity ''b'' ''T1'', bare_entity ''x'', trip_entity ''a'' ''T2'']))
     = Inl AttributeError
   \<and> collect N [trip_entity ''b'' ''T1'', bare_entity ''x'', trip_entity ''a'' ''T2'']
     = collect N [trip_entity ''b'' ''T1'', trip_entity ''a'' ''T2'']"
proof -
  have "process_entity N (bare_entity ''x'') = []"
    by (rule process_entity_bare) (simp_all add: bare_entity_def)
  then show ?thesis
    by (simp add: decoded_feed_raises)
qed

section \<open>Feeds that yield nothing\<close>

text \<open>
  C8. A feed with zero entities, or with no classified entity, should be processed to
  the empty record sequence and not to an error. On both the call ends in
  \<^verbatim>\<open>AttributeError\<close> at \<^verbatim>\<open>feed.header.version\<close>; the branch that returns the
  empty table is never reached.
\<close>

theorem empty_feed_raises:
  "parse_gtfs_realtime L N (Decoded (feed_of [])) = Inl AttributeError
   \<and> parse_gtfs_realtime L N (Decoded (feed_of [bare_entity ''x'', bare_entity ''y'']))
     = Inl AttributeError
   \<and> parse_gtfs_realtime L N (Decoded (feed_of [])) \<noteq> Inr empty_frame"
  by (simp add: decoded_feed_raises)

section \<open>The two copies of the extractors\<close>

text \<open>
  C9, as stated: the extractor of \<^verbatim>\<open>gtfs_parser.py\<close> and the one of
  \<^verbatim>\<open>webapp/app.py\<close> return equal records. This fails on the scenario's trip update:
  the first has a \<^verbatim>\<open>Type\<close> column, the second has none.
\<close>

theorem extractors_equal_counterexample:
  "map_of (process_trip_update example_names scenario_entity scenario_update)
     \<noteq> map_of (web_process_trip_update example_names scenario_entity scenario_update)"
proof
  assume "map_of (process_trip_update example_names scenario_entity scenario_update)
            = map_of (web_process_trip_update example_names scenario_entity scenario_update)"
  then have "map_of (process_trip_update example_names scenario_entity scenario_update) ''Type''
            = map_of (web_process_trip_update example_names scenario_entity scenario_update) ''Type''"
    by simp
  then show False
    by (simp add: process_trip_update_def web_process_trip_update_def Let_def)
qed

text \<open>
  C9, amended: for each of the three kinds, the record of \<^verbatim>\<open>gtfs_parser.py\<close> is the
  record of \<^verbatim>\<open>webapp/app.py\<close> with one more column, \<^verbatim>\<open>Type\<close>, holding the kind
  (\<^verbatim>\<open>trip_update\<close>, \<^verbatim>\<open>vehicle_position\<close>, \<^verbatim>\<open>alert\<close>); the web record has no such
  column, and on every other column the two agree.
\<close>

theorem extractors_equal_up_to_type:
  "map_of (process_trip_update N e tu)
     = (map_of (web_process_trip_update N e tu))(''Type'' \<mapsto> StrV ''trip_update'')
   \<and> map_of (web_process_trip_update N e tu) ''Type'' = None
   \<and> map_of (process_vehicle_position N e v)
     = (map_of (web_process_vehicle_position N e v))(''Type'' \<mapsto> StrV ''vehicle_position'')
   \<and> map_of (web_process_vehicle_position N e v) ''Type'' = None
   \<and> map_of (process_alert N e a)
     = (map_of (web_process_alert N e a))(''Type'' \<mapsto> StrV ''alert'')
   \<and> map_of (web_process_alert N e a) ''Type'' = None"
proof -
  have t0: "map_of (web_process_trip_update N e tu) ''Type'' = None"
    by (simp add: web_process_trip_update_def Let_def)
  have v0: "map_of (web_process_vehicle_position N e v) ''Type'' = None"
    by (simp add: web_process_vehicle_position_def Let_def)
  have a0: "map_of (web_process_alert N e a) ''Type'' = None"
    by (simp add: web_process_alert_def)
  have t1: "map_of (process_trip_update N e tu)
            = (map_of (web_process_trip_update N e tu))(''Type'' \<mapsto> StrV ''trip_update'')"
    by (rule ext) (simp add: process_trip_update_def web_process_trip_update_def Let_def)
  have v1: "map_of (process_vehicle_position N e v)
            = (map_of (web_process_vehicle_position N e v))(''Type'' \<mapsto> StrV ''vehicle_position'')"
    by (rule ext)
       (simp add: process_vehicle_position_def web_process_vehicle_position_def Let_def)
  have a1: "map_of (process_alert N e a)
            = (map_of (web_process_alert N e a))(''Type'' \<mapsto> StrV ''alert'')"
    by (rule ext) (simp add: process_alert_def web_process_alert_def)
  from t0 v0 a0 t1 v1 a1 show ?thesis
    by blast
qed

section \<open>Informed entities\<close>

text \<open>
  C10. An informed entity with no route, stop or agency id is rendered as the empty
  string and still joined, wherever it stands in the list: the Informed Entities column,
  in both copies of the extractor, is what comes before it followed by \<^verbatim>\<open>"; "\<close> (when
  something comes before), then the empty segment, then \<^verbatim>\<open>"; "\<close> and what comes after
  it (when something comes after). So \<^verbatim>\<open>[{route_id: R1}, {}]\<close> gives
  \<^verbatim>\<open>"route_id=R1; "\<close> and \<^verbatim>\<open>[{}, {route_id: R1}]\<close> gives \<^verbatim>\<open>"; route_id=R1"\<close>.
\<close>

theorem empty_informed_entity_segment:
  assumes "es_route_id ie = None" and "es_stop_id ie = None" and "es_agency_id ie = None"
    and "informed_entity a = ies1 @ ie # ies2"
  shows "join '' | '' (informed_parts ie) = ''''
         \<and> map_of (process_alert N e a) ''Informed Entities''
             = Some (StrV ((if ies1 = [] then '''' else informed_entities ies1 @ ''; '')
                           @ (if ies2 = [] then '''' else ''; '' @ informed_entities ies2)))
         \<and> map_of (web_process_alert N e a) ''Informed Entities''
             = Some (StrV ((if ies1 = [] then '''' else informed_entities ies1 @ ''; '')
                           @ (if ies2 = [] then '''' else ''; '' @ informed_entities ies2)))"
proof -
  let ?seg = "\<lambda>ie. join '' | '' (informed_parts ie)"
  have p: "?seg ie = ''''"
    using assms(1-3) by (simp add: informed_parts_def)
  have m: "informed_entities (ies1 @ ie # ies2)
           = (if ies1 = [] then '''' else informed_entities ies1 @ ''; '')
             @ (if ies2 = [] then '''' else ''; '' @ informed_entities ies2)"
  proof (cases "ies1 = []")
    case True
    then show ?thesis
      using p by (cases "ies2 = []") (simp_all add: informed_entities_def join_cons)
  next
    case False
    have "join ''; '' (map ?seg ies1 @ map ?seg (ie # ies2))
          = join ''; '' (map ?seg ies1) @ ''; '' @ join ''; '' (map ?seg (ie # ies2))"
      using False by (intro join_append) simp_all
    moreover have "join ''; '' (map ?seg (ie # ies2))
                   = (if ies2 = [] then '''' else ''; '' @ join ''; '' (map ?seg ies2))"
      using p by (cases "ies2 = []") (simp_all add: join_cons)
    ultimately show ?thesis
      using False by (simp add: informed_entities_def)
  qed
  show ?thesis
    using p m assms(4) by (simp add: process_alert_def web_process_alert_def)
qed

theorem empty_informed_entity_segment_witness:
  "map_of (process_alert example_names (bare_entity ''a1'')
      (alert_with []
         [\<lparr>es_agency_id = None, es_route_id = Some ''R1'', es_stop_id = None\<rparr>,
          \<lparr>es_agency_id = None, es_route_id = None, es_stop_id = None\<rparr>]))
      ''Informed Entities'' = Some (StrV ''route_id=R1; '')
   \<and> map_of (process_alert example_names (bare_entity ''a1'')
      (alert_with []
         [\<lparr>es_agency_id = None, es_route_id = None, es_stop_id = None\<rparr>,
          \<lparr>es_agency_id = None, es_route_id = Some ''R1'', es_stop_id = None\<rparr>]))
      ''Informed Entities'' = Some (StrV ''; route_id=R1'')"
proof -
  let ?r1 = "\<lparr>es_agency_id = None, es_route_id = Some ''R1'', es_stop_id = None\<rparr>"
  let ?z = "\<lparr>es_agency_id = None, es_route_id = None, es_stop_id = None\<rparr>"
  have i: "informed_entity (alert_with [] [?r1, ?z]) = [?r1] @ ?z # []"
    by (simp add: alert_with_def)
  have j: "informed_entity (alert_with [] [?z, ?r1]) = [] @ ?z # [?r1]"
    by (simp add: alert_with_def)
  have r: "informed_entities [?r1] = ''route_id=R1''"
    by (simp add: informed_entities_def informed_parts_def)
  from empty_informed_entity_segment [OF _ _ _ i, of example_names "bare_entity ''a1''"]
    empty_informed_entity_segment [OF _ _ _ j, of example_names "bare_entity ''a1''"] r
  show ?thesis
    by simp
qed

end
